theory Spec2Isabelle
  imports Complex_Main "HOL-Library.Word"
begin

unbundle bit_operations_syntax

section \<open>Python values and exceptions\<close>

text \<open>
  The two programs (\<^verbatim>\<open>data_transmission/__main__.py\<close>, the full-telemetry profile, and
  \<^verbatim>\<open>ble_speed_test/__main__.py\<close>, the timing-only profile) receive byte buffers from a
  Bluetooth Low Energy peripheral and decode them with \<^verbatim>\<open>struct.unpack\<close>.

  A Python \<^verbatim>\<open>float\<close> produced by unpacking an IEEE 754 binary32 field is a double that
  holds the single-precision value exactly, so it is modelled by the value itself: a
  rational number, a signed zero, an infinity or a NaN.
\<close>

type_synonym byte = "8 word"

datatype pyfloat = Finite rat | MinusZero | PlusInf | MinusInf | NaN

datatype pyval = PyInt int | PyFloat pyfloat | PyTuple "pyval list"

section \<open>The measurement codec\<close>

subsection \<open>\<^verbatim>\<open>struct.unpack\<close> with a little-endian format\<close>

text \<open>
  The format strings of the source are \<^verbatim>\<open>"<fff"\<close>, \<^verbatim>\<open>"<i"\<close>, \<^verbatim>\<open>"<f"\<close> and \<^verbatim>\<open>"<L"\<close>.
  With the prefix \<^verbatim>\<open><\<close> every field has its standard size, 4 bytes for each of
  \<^verbatim>\<open>f\<close>, \<^verbatim>\<open>i\<close>, \<^verbatim>\<open>L\<close>, and there is no padding.
\<close>

datatype fmt = Fmt_f | Fmt_i | Fmt_L

fun fmt_size :: "fmt \<Rightarrow> nat" where
  "fmt_size Fmt_f = 4"
| "fmt_size Fmt_i = 4"
| "fmt_size Fmt_L = 4"

definition calcsize :: "fmt list \<Rightarrow> nat" where
  "calcsize fs = sum_list (map fmt_size fs)"

text \<open>Four bytes, least significant first, as one 32-bit word.\<close>

fun le_word32 :: "byte list \<Rightarrow> 32 word" where
  "le_word32 [] = 0"
| "le_word32 (b # bs) = ucast b OR push_bit 8 (le_word32 bs)"

text \<open>
  The value of an IEEE 754 binary32 bit pattern: bit 31 is the sign, bits 30 to 23 the
  biased exponent \<open>e\<close>, bits 22 to 0 the fraction \<open>m\<close>. A normal number is
  \<open>\<plusminus> (2^23 + m) * 2^(e - 150)\<close>, a subnormal one \<open>\<plusminus> m * 2^(-149)\<close>.
\<close>

definition float_of_bits :: "32 word \<Rightarrow> pyfloat" where
  "float_of_bits w =
     (let s = bit w 31;
          e = unat (drop_bit 23 w AND 0xFF);
          m = unat (w AND 0x7FFFFF);
          sg = (if s then - 1 else 1 :: rat)
      in if e = 255 then (if m = 0 then (if s then MinusInf else PlusInf) else NaN)
         else if e = 0 then
           (if m = 0 then (if s then MinusZero else Finite 0)
            else Finite (sg * of_nat m / 2 ^ 149))
         else if 150 \<le> e then Finite (sg * of_nat (2 ^ 23 + m) * 2 ^ (e - 150))
         else Finite (sg * of_nat (2 ^ 23 + m) / 2 ^ (150 - e)))"

fun unpack_field :: "fmt \<Rightarrow> byte list \<Rightarrow> pyval" where
  "unpack_field Fmt_f bs = PyFloat (float_of_bits (le_word32 bs))"
| "unpack_field Fmt_i bs = PyInt (sint (le_word32 bs))"
| "unpack_field Fmt_L bs = PyInt (uint (le_word32 bs))"

fun unpack_fields :: "fmt list \<Rightarrow> byte list \<Rightarrow> pyval list" where
  "unpack_fields [] bs = []"
| "unpack_fields (f # fs) bs =
     unpack_field f (take (fmt_size f) bs) # unpack_fields fs (drop (fmt_size f) bs)"

text \<open>
  The exceptions that the modelled code can raise. \<^verbatim>\<open>struct.error\<close> carries the message
  \<^verbatim>\<open>unpack requires a buffer of n bytes\<close>, that is, the size the format requires and
  nothing about the buffer it was given. \<open>BleakError\<close> stands for an exception of the BLE
  stack with the text it carries, which the program neither chooses nor inspects.
\<close>

datatype transport_op =
    ScannerStart
  | ScannerStop
  | Connect
  | GetCharacteristic string
  | StartNotify string
  | StopNotify string
  | Disconnect

datatype exn =
    StructError nat
  | ValueError
  | AttributeError
  | Unreachable
  | TransportError transport_op
  | BleakError string

text \<open>\<^verbatim>\<open>unpack(fmt, data)\<close>: a tuple of the fields, or \<^verbatim>\<open>struct.error\<close> on any other length.\<close>

definition unpack :: "fmt list \<Rightarrow> byte list \<Rightarrow> exn + pyval list" where
  "unpack fs data =
     (if length data \<noteq> calcsize fs then Inl (StructError (calcsize fs))
      else Inr (unpack_fields fs data))"

subsection \<open>The measurement classes and their \<^verbatim>\<open>read_from\<close>\<close>

text \<open>
  One constructor for each class of the source. Python does not enforce the annotations of
  the constructors' parameters, so a field holds whatever value \<^verbatim>\<open>read_from\<close> passes.
\<close>

datatype measurement =
    AccelerationCharacteristic pyval pyval pyval
  | RotationCharacteristic pyval pyval pyval
  | MagnetometerCharacteristic pyval
  | TemperatureCharacteristic pyval
  | TimeCharacteristic pyval

text \<open>\<^verbatim>\<open>ax, ay, az = unpack("<fff", data); return cls(ax, ay, az)\<close>\<close>

definition Acceleration_read_from :: "byte list \<Rightarrow> exn + measurement" where
  "Acceleration_read_from data =
     (case unpack [Fmt_f, Fmt_f, Fmt_f] data of
        Inl e \<Rightarrow> Inl e
      | Inr [ax, ay, az] \<Rightarrow> Inr (AccelerationCharacteristic ax ay az)
      | Inr _ \<Rightarrow> Inl ValueError)"

text \<open>\<^verbatim>\<open>rx, ry, rz = unpack("<fff", data); return cls(rx, ry, rz)\<close>\<close>

definition Rotation_read_from :: "byte list \<Rightarrow> exn + measurement" where
  "Rotation_read_from data =
     (case unpack [Fmt_f, Fmt_f, Fmt_f] data of
        Inl e \<Rightarrow> Inl e
      | Inr [rx, ry, rz] \<Rightarrow> Inr (RotationCharacteristic rx ry rz)
      | Inr _ \<Rightarrow> Inl ValueError)"

text \<open>\<^verbatim>\<open>azimuth, = unpack("<i", data); return cls(azimuth)\<close>\<close>

definition Magnetometer_read_from :: "byte list \<Rightarrow> exn + measurement" where
  "Magnetometer_read_from data =
     (case unpack [Fmt_i] data of
        Inl e \<Rightarrow> Inl e
      | Inr [azimuth] \<Rightarrow> Inr (MagnetometerCharacteristic azimuth)
      | Inr _ \<Rightarrow> Inl ValueError)"

text \<open>\<^verbatim>\<open>temp, = unpack("<f", data); return cls(temp)\<close>\<close>

definition Temperature_read_from :: "byte list \<Rightarrow> exn + measurement" where
  "Temperature_read_from data =
     (case unpack [Fmt_f] data of
        Inl e \<Rightarrow> Inl e
      | Inr [temp] \<Rightarrow> Inr (TemperatureCharacteristic temp)
      | Inr _ \<Rightarrow> Inl ValueError)"

text \<open>
  \<^verbatim>\<open>time = unpack("<L", data); return cls(time)\<close>: there is no comma after \<^verbatim>\<open>time\<close>,
  so the name is bound to the whole tuple that \<^verbatim>\<open>unpack\<close> returns.
\<close>

definition Time_read_from :: "byte list \<Rightarrow> exn + measurement" where
  "Time_read_from data =
     (case unpack [Fmt_L] data of
        Inl e \<Rightarrow> Inl e
      | Inr time \<Rightarrow> Inr (TimeCharacteristic (PyTuple time)))"

section \<open>The world outside the program\<close>

text \<open>
  The BLE stack (the \<^verbatim>\<open>bleak\<close> library) is not part of the repository. The program is
  modelled against a description of how the stack answers during one run: which
  advertisements the scanner's callback receives before \<^verbatim>\<open>wait_for\<close> returns, which
  operations raise, which characteristics the peripheral exposes, whether the link is lost
  while the program listens, and after how many one-second sleeps the program is
  cancelled (\<open>None\<close>: never). Starting and stopping the scanner are taken not to raise.

  For \<^verbatim>\<open>start_notify\<close>, which the program calls outside any \<^verbatim>\<open>try\<close>, the stack says which
  exception it raises on an identifier (\<open>None\<close>: it returns) and whether the link is gone
  once it has raised there, so that neither the content of the exception nor the state of
  the connection after a failure is fixed by the model.
\<close>

record BLEDevice =
  name :: "string option"
  address :: string

record transport =
  advertisements :: "BLEDevice list"
  connect_fails :: bool
  has_characteristic :: "string \<Rightarrow> bool"
  start_notify_raises :: "string \<Rightarrow> exn option"
  start_notify_drops_link :: "string \<Rightarrow> bool"
  stop_notify_fails :: "string \<Rightarrow> bool"
  disconnect_fails :: bool
  link_lost :: bool
  shutdown_after :: "nat option"

text \<open>The lines the program prints, one constructor for each \<^verbatim>\<open>print\<close> of the source.\<close>

datatype msg =
    Msg_scanning
  | Msg_found_device "string option" string
  | Msg_device_found
  | Msg_device_not_found
  | Msg_no_device
  | Msg_connected_to string
  | Msg_characteristic_not_found string string
  | Msg_all_available
  | Msg_failed_to_connect exn
  | Msg_notification_started string
  | Msg_notification_stopped string
  | Msg_disconnected
  | Msg_listening
  | Msg_shutdown
  | Msg_received string int "measurement option"

text \<open>
  What the program does to the outside: the operations it issues against the BLE stack, in
  order, and the lines it prints, in order.
\<close>

record world =
  trace :: "transport_op list"
  stdout :: "msg list"

definition issue :: "transport_op \<Rightarrow> world \<Rightarrow> world" where
  "issue e w = w\<lparr>trace := trace w @ [e]\<rparr>"

definition print_msg :: "msg \<Rightarrow> world \<Rightarrow> world" where
  "print_msg x w = w\<lparr>stdout := stdout w @ [x]\<rparr>"

section \<open>The notification handlers\<close>

text \<open>
  \<^verbatim>\<open>data_transmission\<close>: the \<^verbatim>\<open>match\<close> has four cases and no default, so any other
  name leaves \<^verbatim>\<open>result = None\<close>. Nothing catches what \<^verbatim>\<open>read_from\<close> raises.
\<close>

definition match_measurement :: "string \<Rightarrow> byte list \<Rightarrow> exn + measurement option" where
  "match_measurement measurement_type data =
     (if measurement_type = ''acceleration'' then map_sum id Some (Acceleration_read_from data)
      else if measurement_type = ''rotation'' then map_sum id Some (Rotation_read_from data)
      else if measurement_type = ''magnetometer'' then map_sum id Some (Magnetometer_read_from data)
      else if measurement_type = ''temperature'' then map_sum id Some (Temperature_read_from data)
      else Inr None)"

definition notification_handler ::
  "string \<Rightarrow> int \<Rightarrow> byte list \<Rightarrow> world \<Rightarrow> (exn + unit) \<times> world" where
  "notification_handler measurement_type sender data w =
     (case match_measurement measurement_type data of
        Inl e \<Rightarrow> (Inl e, w)
      | Inr result \<Rightarrow> (Inr (), print_msg (Msg_received measurement_type sender result) w))"

text \<open>
  \<^verbatim>\<open>ble_speed_test\<close>: the handler keeps three globals. \<open>t_first\<close> and \<open>t_now\<close> are the two
  readings of \<^verbatim>\<open>time.time_ns()\<close>. The value appended to \<^verbatim>\<open>times\<close> is the Python float that
  \<^verbatim>\<open>/\<close> gives for two integers. It is determined by the two integers and is kept as that
  pair, since the rounding of the division is not modelled.
\<close>

datatype pyquotient = TrueDiv int int

record timing =
  last_time :: int
  first_time :: bool
  times :: "pyquotient list"

definition speed_notification_handler ::
  "string \<Rightarrow> int \<Rightarrow> byte list \<Rightarrow> int \<Rightarrow> int \<Rightarrow> timing \<Rightarrow> (exn + unit) \<times> timing" where
  "speed_notification_handler measurement_type sender data t_first t_now g =
     (let g1 = (if first_time g then g\<lparr>last_time := t_first, first_time := False\<rparr> else g)
      in if measurement_type = ''time'' then
           (case Time_read_from data of
              Inl e \<Rightarrow> (Inl e, g1)
            | Inr result \<Rightarrow>
                (Inr (), g1\<lparr>times := times g1 @ [TrueDiv (t_now - last_time g1) (10 ^ 6)],
                            last_time := t_now\<rparr>))
         else (Inl Unreachable, g1))"

section \<open>The class \<^verbatim>\<open>BLEManager\<close>\<close>

text \<open>
  The class is the same in both programs; they differ in the dictionary
  \<^verbatim>\<open>CHARACTERISTIC_UUIDS\<close> they construct it with. A Python dictionary iterates in
  insertion order, so it is a list of pairs (label, UUID).

  A \<^verbatim>\<open>BleakClient\<close> is modelled by the device it was created for and by what its property
  \<^verbatim>\<open>is_connected\<close> answers: true from a successful \<^verbatim>\<open>connect()\<close> until a successful
  \<^verbatim>\<open>disconnect()\<close> or until the link is lost.
\<close>

record BleakClient =
  client_device :: BLEDevice
  is_connected :: bool

record BLEManager =
  target_name :: string
  service_uuid :: string
  characteristic_uuids :: "(string \<times> string) list"
  device :: "BLEDevice option"
  client :: "BleakClient option"

definition SERVICE_UUID :: string where
  "SERVICE_UUID = ''19B10000-E8F2-537E-4F6C-D104768A1214''"

definition TARGET_NAME :: string where
  "TARGET_NAME = ''MonArduinoBLE''"

definition CHARACTERISTIC_UUIDS :: "(string \<times> string) list" where
  "CHARACTERISTIC_UUIDS =
     [(''acceleration'', ''19B10001-E8F2-537E-4F6C-D104768A1214''),
      (''rotation'', ''19B10002-E8F2-537E-4F6C-D104768A1215''),
      (''magnetometer'', ''19B10002-E8F2-537E-4F6C-D104768A1216''),
      (''temperature'', ''19B10003-E8F2-537E-4F6C-D104768A1217'')]"

definition SPEED_CHARACTERISTIC_UUIDS :: "(string \<times> string) list" where
  "SPEED_CHARACTERISTIC_UUIDS = [(''time'', ''19B10001-E8F2-537E-4F6C-D104768A1214'')]"

text \<open>\<^verbatim>\<open>__init__\<close>\<close>

definition BLEManager_init :: "string \<Rightarrow> string \<Rightarrow> (string \<times> string) list \<Rightarrow> BLEManager" where
  "BLEManager_init tn su cu =
     \<lparr>target_name = tn, service_uuid = su, characteristic_uuids = cu,
      device = None, client = None\<rparr>"

text \<open>\<^verbatim>\<open>self.client and self.client.is_connected\<close>\<close>

definition client_connected :: "BLEManager \<Rightarrow> bool" where
  "client_connected self = (case client self of None \<Rightarrow> False | Some c \<Rightarrow> is_connected c)"

definition set_connected :: "bool \<Rightarrow> BLEManager \<Rightarrow> BLEManager" where
  "set_connected b self = self\<lparr>client := map_option (\<lambda>c. c\<lparr>is_connected := b\<rparr>) (client self)\<rparr>"

subsection \<open>\<^verbatim>\<open>scan_for_device\<close>\<close>

text \<open>
  The callback prints a line for every advertised device whose name equals the target name
  and queues it; \<^verbatim>\<open>queue.get()\<close> returns the first. When none is queued before the
  timeout, \<^verbatim>\<open>asyncio.TimeoutError\<close> is caught and the method returns \<^verbatim>\<open>False\<close>.
\<close>

definition found_lines :: "string \<Rightarrow> BLEDevice list \<Rightarrow> msg list" where
  "found_lines target ds =
     map (\<lambda>d. Msg_found_device (name d) (address d)) (filter (\<lambda>d. name d = Some target) ds)"

definition print_lines :: "msg list \<Rightarrow> world \<Rightarrow> world" where
  "print_lines xs w = w\<lparr>stdout := stdout w @ xs\<rparr>"

definition scan_for_device :: "transport \<Rightarrow> BLEManager \<Rightarrow> world \<Rightarrow> bool \<times> BLEManager \<times> world" where
  "scan_for_device env self w =
     (let w1 = issue ScannerStart (print_msg Msg_scanning w)
      in case find (\<lambda>d. name d = Some (target_name self)) (advertisements env) of
           Some d \<Rightarrow>
             (True, self\<lparr>device := Some d\<rparr>,
              issue ScannerStop
                (print_msg Msg_device_found
                   (print_lines (found_lines (target_name self) (advertisements env)) w1)))
         | None \<Rightarrow> (False, self, issue ScannerStop (print_msg Msg_device_not_found w1)))"

subsection \<open>\<^verbatim>\<open>connect\<close>\<close>

text \<open>
  The loop over \<^verbatim>\<open>self.characteristic_uuids.items()\<close>. It runs inside the \<^verbatim>\<open>try\<close>, so an
  exception of \<^verbatim>\<open>disconnect()\<close> is caught by \<^verbatim>\<open>except Exception\<close> and reported as a
  failure to connect.
\<close>

fun validate :: "transport \<Rightarrow> (string \<times> string) list \<Rightarrow> BLEManager \<Rightarrow> world \<Rightarrow> bool \<times> BLEManager \<times> world" where
  "validate env [] self w = (True, self, print_msg Msg_all_available w)"
| "validate env ((label, uuid) # rest) self w =
     (let w1 = issue (GetCharacteristic uuid) w
      in if has_characteristic env uuid then validate env rest self w1
         else
           (let w2 = issue Disconnect (print_msg (Msg_characteristic_not_found label uuid) w1)
            in if disconnect_fails env
               then (False, self, print_msg (Msg_failed_to_connect (TransportError Disconnect)) w2)
               else (False, set_connected False self, w2)))"

definition connect :: "transport \<Rightarrow> BLEManager \<Rightarrow> world \<Rightarrow> bool \<times> BLEManager \<times> world" where
  "connect env self w =
     (case device self of
        None \<Rightarrow> (False, self, print_msg Msg_no_device w)
      | Some d \<Rightarrow>
          (let self1 = self\<lparr>client := Some \<lparr>client_device = d, is_connected = False\<rparr>\<rparr>;
               w1 = issue Connect w
           in if connect_fails env
              then (False, self1, print_msg (Msg_failed_to_connect (TransportError Connect)) w1)
              else validate env (characteristic_uuids self1) (set_connected True self1)
                     (print_msg (Msg_connected_to (address d)) w1)))"

subsection \<open>\<^verbatim>\<open>start_notifications\<close>, \<^verbatim>\<open>stop_notifications\<close>, \<^verbatim>\<open>disconnect\<close>\<close>

text \<open>
  None of the three methods has a \<^verbatim>\<open>try\<close>: an exception of the BLE stack leaves the loop
  and the method at once. \<^verbatim>\<open>self.client.start_notify\<close> on a manager without a client
  raises \<^verbatim>\<open>AttributeError\<close>. What \<^verbatim>\<open>start_notify\<close> raises is the stack's own exception,
  passed on as it is; the client's \<^verbatim>\<open>is_connected\<close> afterwards is what the stack says.
\<close>

fun start_notifications_loop :: "transport \<Rightarrow> (string \<times> string) list \<Rightarrow> BLEManager \<Rightarrow> world \<Rightarrow> (exn + unit) \<times> BLEManager \<times> world" where
  "start_notifications_loop env [] self w = (Inr (), self, w)"
| "start_notifications_loop env ((measurement, uuid) # rest) self w =
     (if client self = None then (Inl AttributeError, self, w)
      else
        (let w1 = issue (StartNotify uuid) w
         in case start_notify_raises env uuid of
              Some e \<Rightarrow>
                (Inl e,
                 if start_notify_drops_link env uuid then set_connected False self else self,
                 w1)
            | None \<Rightarrow>
                start_notifications_loop env rest self
                  (print_msg (Msg_notification_started measurement) w1)))"

definition start_notifications :: "transport \<Rightarrow> BLEManager \<Rightarrow> world \<Rightarrow> (exn + unit) \<times> BLEManager \<times> world" where
  "start_notifications env self w =
     start_notifications_loop env (characteristic_uuids self) self w"

fun stop_notifications_loop :: "transport \<Rightarrow> string list \<Rightarrow> BLEManager \<Rightarrow> world \<Rightarrow> (exn + unit) \<times> world" where
  "stop_notifications_loop env [] self w = (Inr (), w)"
| "stop_notifications_loop env (uuid # rest) self w =
     (if client_connected self then
        (let w1 = issue (StopNotify uuid) w
         in if stop_notify_fails env uuid then (Inl (TransportError (StopNotify uuid)), w1)
            else stop_notifications_loop env rest self
                   (print_msg (Msg_notification_stopped uuid) w1))
      else stop_notifications_loop env rest self w)"

definition stop_notifications :: "transport \<Rightarrow> BLEManager \<Rightarrow> world \<Rightarrow> (exn + unit) \<times> world" where
  "stop_notifications env self w =
     stop_notifications_loop env (map snd (characteristic_uuids self)) self w"

definition disconnect :: "transport \<Rightarrow> BLEManager \<Rightarrow> world \<Rightarrow> (exn + unit) \<times> BLEManager \<times> world" where
  "disconnect env self w =
     (if client_connected self then
        (let w1 = issue Disconnect w
         in if disconnect_fails env then (Inl (TransportError Disconnect), self, w1)
            else (Inr (), set_connected False self, print_msg Msg_disconnected w1))
      else (Inr (), self, w))"

subsection \<open>\<^verbatim>\<open>run\<close>\<close>

text \<open>
  The body of the \<^verbatim>\<open>finally\<close> clause: \<^verbatim>\<open>stop_notifications()\<close>, then \<^verbatim>\<open>disconnect()\<close>.
  An exception of the first leaves the clause before the second is called.
\<close>

definition teardown :: "transport \<Rightarrow> BLEManager \<Rightarrow> world \<Rightarrow> (exn + unit) \<times> BLEManager \<times> world" where
  "teardown env self w =
     (case stop_notifications env self w of
        (Inl e, w1) \<Rightarrow> (Inl e, self, w1)
      | (Inr u, w1) \<Rightarrow> disconnect env self w1)"

text \<open>
  \<^verbatim>\<open>while True: await asyncio.sleep(1)\<close> ends only when the task is cancelled. \<open>i\<close> counts
  the sleeps completed so far; the loop never returns when no cancellation arrives.
\<close>

partial_function (option) listen :: "transport \<Rightarrow> nat \<Rightarrow> nat option" where
  [code]: "listen env i = (if shutdown_after env = Some i then Some i else listen env (Suc i))"

text \<open>
  \<^verbatim>\<open>run\<close> returns \<^verbatim>\<open>None\<close> on each of its paths (\<open>Inr ()\<close>) or lets an exception through
  (\<open>Inl\<close>); the outer \<open>option\<close> is \<open>None\<close> when it never returns.
  \<^verbatim>\<open>start_notifications\<close> is called before the \<^verbatim>\<open>try\<close>.
\<close>

definition run :: "transport \<Rightarrow> BLEManager \<Rightarrow> world \<Rightarrow> ((exn + unit) \<times> BLEManager \<times> world) option" where
  "run env self w =
     (case scan_for_device env self w of
        (False, self1, w1) \<Rightarrow> Some (Inr (), self1, w1)
      | (True, self1, w1) \<Rightarrow>
          (case connect env self1 w1 of
             (False, self2, w2) \<Rightarrow> Some (Inr (), self2, w2)
           | (True, self2, w2) \<Rightarrow>
               (case start_notifications env self2 w2 of
                  (Inl e, self3, w3) \<Rightarrow> Some (Inl e, self3, w3)
                | (Inr u, self3, w3) \<Rightarrow>
                    (case listen env 0 of
                       None \<Rightarrow> None
                     | Some n \<Rightarrow>
                         Some (teardown env
                                 (if link_lost env then set_connected False self3 else self3)
                                 (print_msg Msg_shutdown (print_msg Msg_listening w3)))))))"

section \<open>Observations and concrete runs\<close>

text \<open>What a run did since a given moment, and what its caller sees.\<close>

definition ops_since :: "world \<Rightarrow> world \<Rightarrow> transport_op list" where
  "ops_since w w' = drop (length (trace w)) (trace w')"

definition printed_since :: "world \<Rightarrow> world \<Rightarrow> msg list" where
  "printed_since w w' = drop (length (stdout w)) (stdout w')"

definition returned :: "((exn + unit) \<times> BLEManager \<times> world) option \<Rightarrow> (exn + unit) option" where
  "returned r = map_option fst r"

definition outcome ::
  "((exn + unit) \<times> BLEManager \<times> world) option \<Rightarrow> ((exn + unit) \<times> transport_op list \<times> bool) option" where
  "outcome r = map_option (\<lambda>(x, self, w). (x, trace w, client_connected self)) r"

text \<open>The \<^verbatim>\<open>finally\<close> clause run a second time on what the first run left.\<close>

definition teardown_twice :: "transport \<Rightarrow> BLEManager \<Rightarrow> world \<Rightarrow> (exn + unit) \<times> BLEManager \<times> world" where
  "teardown_twice env self w =
     (case teardown env self w of (r1, self1, w1) \<Rightarrow> teardown env self1 w1)"

text \<open>
  The manager that \<^verbatim>\<open>main\<close> of \<^verbatim>\<open>data_transmission\<close> constructs, a peripheral with the
  target name, and a BLE stack on which every operation succeeds and the program is
  cancelled during its first sleep. The other stacks differ from it in one answer each.
\<close>

definition arduino :: BLEDevice where
  "arduino = \<lparr>name = Some TARGET_NAME, address = ''AA:BB:CC:DD:EE:FF''\<rparr>"

definition manager0 :: BLEManager where
  "manager0 = BLEManager_init TARGET_NAME SERVICE_UUID CHARACTERISTIC_UUIDS"

definition manager_connected :: BLEManager where
  "manager_connected =
     manager0\<lparr>device := Some arduino,
              client := Some \<lparr>client_device = arduino, is_connected = True\<rparr>\<rparr>"

definition manager_found :: BLEManager where
  "manager_found = manager0\<lparr>device := Some arduino\<rparr>"

definition world0 :: world where
  "world0 = \<lparr>trace = [], stdout = []\<rparr>"

definition timing0 :: timing where
  "timing0 = \<lparr>last_time = 0, first_time = True, times = []\<rparr>"

definition env_ok :: transport where
  "env_ok =
     \<lparr>advertisements = [arduino], connect_fails = False,
      has_characteristic = (\<lambda>u. True), start_notify_raises = (\<lambda>u. None),
      start_notify_drops_link = (\<lambda>u. False),
      stop_notify_fails = (\<lambda>u. False), disconnect_fails = False, link_lost = False,
      shutdown_after = Some 0\<rparr>"

definition env_timeout :: transport where
  "env_timeout =
     env_ok\<lparr>advertisements :=
       [\<lparr>name = Some ''monarduinoble'', address = ''11:22:33:44:55:66''\<rparr>,
        \<lparr>name = None, address = ''AA:BB:CC:DD:EE:FF''\<rparr>]\<rparr>"

definition env_missing :: transport where
  "env_missing =
     env_ok\<lparr>has_characteristic := (\<lambda>u. u \<noteq> ''19B10002-E8F2-537E-4F6C-D104768A1215'')\<rparr>"

definition env_subscribe_fails :: transport where
  "env_subscribe_fails =
     env_ok\<lparr>start_notify_raises :=
       (\<lambda>u. if u = ''19B10002-E8F2-537E-4F6C-D104768A1216''
            then Some (TransportError (StartNotify u)) else None)\<rparr>"

text \<open>A stack whose exception does not name the identifier and that drops the link.\<close>

definition env_subscribe_drops :: transport where
  "env_subscribe_drops =
     env_ok\<lparr>start_notify_raises :=
              (\<lambda>u. if u = ''19B10002-E8F2-537E-4F6C-D104768A1216''
                   then Some (BleakError ''Not connected'') else None),
            start_notify_drops_link := (\<lambda>u. True)\<rparr>"

definition env_stop_fails :: transport where
  "env_stop_fails =
     env_ok\<lparr>stop_notify_fails := (\<lambda>u. u = ''19B10002-E8F2-537E-4F6C-D104768A1215'')\<rparr>"

definition env_disconnect_fails :: transport where
  "env_disconnect_fails = env_ok\<lparr>disconnect_fails := True\<rparr>"

definition env_connect_fails :: transport where
  "env_connect_fails = env_ok\<lparr>connect_fails := True\<rparr>"

lemmas concrete_defs =
  env_ok_def env_timeout_def env_missing_def env_subscribe_fails_def env_subscribe_drops_def
  env_stop_fails_def
  env_disconnect_fails_def env_connect_fails_def manager0_def manager_found_def
  manager_connected_def world0_def timing0_def
  arduino_def BLEManager_init_def TARGET_NAME_def SERVICE_UUID_def CHARACTERISTIC_UUIDS_def
  SPEED_CHARACTERISTIC_UUIDS_def

lemmas step_defs =
  run_def scan_for_device_def connect_def start_notifications_def stop_notifications_def
  disconnect_def teardown_def issue_def print_msg_def print_lines_def found_lines_def
  set_connected_def client_connected_def

lemmas codec_defs =
  Acceleration_read_from_def Rotation_read_from_def Magnetometer_read_from_def
  Temperature_read_from_def Time_read_from_def unpack_def calcsize_def

section \<open>Facts about the loops\<close>

lemma listen_cancelled:
  "shutdown_after env = Some n \<Longrightarrow> i \<le> n \<Longrightarrow> listen env i = Some n"
proof (induction "n - i" arbitrary: i)
  case 0
  then show ?case by (subst listen.simps) simp
next
  case (Suc k)
  then have "listen env (Suc i) = Some n" by simp
  moreover from Suc have "i \<noteq> n" by simp
  ultimately show ?case using Suc.prems by (subst listen.simps) simp
qed

lemma validate_present:
  "\<forall>(l, u)\<in>set regs. has_characteristic env u \<Longrightarrow>
   validate env regs self w =
     (True, self, \<lparr>trace = trace w @ map (GetCharacteristic \<circ> snd) regs,
                   stdout = stdout w @ [Msg_all_available]\<rparr>)"
  by (induction regs arbitrary: w) (auto simp: issue_def print_msg_def)

lemma validate_missing:
  "\<forall>(l, u)\<in>set pre. has_characteristic env u \<Longrightarrow> \<not> has_characteristic env uuid \<Longrightarrow>
   validate env (pre @ (label, uuid) # post) self w =
     (False, if disconnect_fails env then self else set_connected False self,
      \<lparr>trace = trace w @ map (GetCharacteristic \<circ> snd) pre @ [GetCharacteristic uuid, Disconnect],
       stdout = stdout w @ Msg_characteristic_not_found label uuid #
                  (if disconnect_fails env
                   then [Msg_failed_to_connect (TransportError Disconnect)] else [])\<rparr>)"
  by (induction pre arbitrary: w) (auto simp: issue_def print_msg_def)

lemma scan_found:
  "find (\<lambda>d. name d = Some (target_name self)) (advertisements env) = Some d \<Longrightarrow>
   scan_for_device env self w =
     (True, self\<lparr>device := Some d\<rparr>,
      \<lparr>trace = trace w @ [ScannerStart, ScannerStop],
       stdout = stdout w @ Msg_scanning # found_lines (target_name self) (advertisements env)
                  @ [Msg_device_found]\<rparr>)"
  by (simp add: scan_for_device_def issue_def print_msg_def print_lines_def)

lemma start_loop_fails:
  "client self \<noteq> None \<Longrightarrow> \<forall>(l, u)\<in>set pre. start_notify_raises env u = None \<Longrightarrow>
   start_notify_raises env uuid = Some e \<Longrightarrow>
   start_notifications_loop env (pre @ (label, uuid) # post) self w =
     (Inl e,
      if start_notify_drops_link env uuid then set_connected False self else self,
      \<lparr>trace = trace w @ map (StartNotify \<circ> snd) pre @ [StartNotify uuid],
       stdout = stdout w @ map (Msg_notification_started \<circ> fst) pre\<rparr>)"
  by (induction pre arbitrary: w) (auto simp: issue_def print_msg_def)

lemma stop_loop_connected:
  "client_connected self \<Longrightarrow>
   stop_notifications_loop env us self w =
     (case find (stop_notify_fails env) us of
        Some u \<Rightarrow>
          (Inl (TransportError (StopNotify u)),
           \<lparr>trace = trace w @ map StopNotify (takeWhile (\<lambda>u. \<not> stop_notify_fails env u) us)
                      @ [StopNotify u],
            stdout = stdout w
                      @ map Msg_notification_stopped
                          (takeWhile (\<lambda>u. \<not> stop_notify_fails env u) us)\<rparr>)
      | None \<Rightarrow>
          (Inr (), \<lparr>trace = trace w @ map StopNotify us,
                    stdout = stdout w @ map Msg_notification_stopped us\<rparr>))"
  by (induction us arbitrary: w) (auto simp: issue_def print_msg_def split: option.splits)

lemma stop_loop_idle:
  "\<not> client_connected self \<Longrightarrow> stop_notifications_loop env us self w = (Inr (), w)"
  by (induction us arbitrary: w) auto

lemma teardown_idle:
  "\<not> client_connected self \<Longrightarrow> teardown env self w = (Inr (), self, w)"
  by (simp add: teardown_def stop_notifications_def stop_loop_idle disconnect_def)

lemma teardown_connected:
  assumes "client_connected self"
  shows "teardown env self w =
     (let uuids = map snd (characteristic_uuids self);
          stopped = takeWhile (\<lambda>u. \<not> stop_notify_fails env u) uuids
      in case find (stop_notify_fails env) uuids of
           Some u \<Rightarrow>
             (Inl (TransportError (StopNotify u)), self,
              \<lparr>trace = trace w @ map StopNotify stopped @ [StopNotify u],
               stdout = stdout w @ map Msg_notification_stopped stopped\<rparr>)
         | None \<Rightarrow>
             if disconnect_fails env then
               (Inl (TransportError Disconnect), self,
                \<lparr>trace = trace w @ map StopNotify uuids @ [Disconnect],
                 stdout = stdout w @ map Msg_notification_stopped uuids\<rparr>)
             else
               (Inr (), set_connected False self,
                \<lparr>trace = trace w @ map StopNotify uuids @ [Disconnect],
                 stdout = stdout w @ map Msg_notification_stopped uuids @ [Msg_disconnected]\<rparr>))"
  using assms
  by (simp add: teardown_def stop_notifications_def stop_loop_connected disconnect_def
      issue_def print_msg_def Let_def split: option.splits)

lemma set_connected_False: "\<not> client_connected (set_connected False self)"
  by (simp add: client_connected_def set_connected_def split: option.splits)

text \<open>
  The listening loop returns exactly when a cancellation arrives, and a run in which
  nothing fails goes through every phase and ends disconnected.
\<close>

lemma listen_returns:
  assumes "listen env i = Some n"
  shows "shutdown_after env = Some n \<and> i \<le> n"
proof (rule listen.raw_induct [where P = "\<lambda>env i n. shutdown_after env = Some n \<and> i \<le> n"])
  show "listen env i = Some n" by (rule assms)
next
  fix f env' i' n'
  assume ih: "\<And>env i n. f env i = Some n \<Longrightarrow> shutdown_after env = Some n \<and> i \<le> n"
    and step: "(if shutdown_after env' = Some i' then Some i' else f env' (Suc i')) = Some n'"
  show "shutdown_after env' = Some n' \<and> i' \<le> n'"
  proof (cases "shutdown_after env' = Some i'")
    case True
    with step show ?thesis by simp
  next
    case False
    with step have "f env' (Suc i') = Some n'" by simp
    from ih [OF this] show ?thesis by simp
  qed
qed

lemma listen_eq:
  "listen env i =
     (case shutdown_after env of None \<Rightarrow> None | Some n \<Rightarrow> if i \<le> n then Some n else None)"
proof (cases "listen env i")
  case None
  then show ?thesis
    using listen_cancelled [of env _ i] by (auto split: option.splits)
next
  case (Some n)
  then show ?thesis
    using listen_returns [of env i n] by simp
qed

lemma start_loop_ok:
  "client self \<noteq> None \<Longrightarrow> \<forall>(l, u)\<in>set regs. start_notify_raises env u = None \<Longrightarrow>
   start_notifications_loop env regs self w =
     (Inr (), self,
      \<lparr>trace = trace w @ map (StartNotify \<circ> snd) regs,
       stdout = stdout w @ map (Msg_notification_started \<circ> fst) regs\<rparr>)"
  by (induction regs arbitrary: w) (auto simp: issue_def print_msg_def)

lemma run_session_completes:
  assumes scan: "find (\<lambda>d. name d = Some (target_name self)) (advertisements env) = Some d"
    and conn: "\<not> connect_fails env"
    and present: "\<forall>(l, u)\<in>set (characteristic_uuids self). has_characteristic env u"
    and start: "\<forall>(l, u)\<in>set (characteristic_uuids self). start_notify_raises env u = None"
    and stop: "\<forall>(l, u)\<in>set (characteristic_uuids self). \<not> stop_notify_fails env u"
    and disc: "\<not> disconnect_fails env"
    and link: "\<not> link_lost env"
    and cancel: "shutdown_after env = Some n"
  shows "\<exists>self' w'. run env self w = Some (Inr (), self', w')
           \<and> ops_since w w' = [ScannerStart, ScannerStop, Connect]
               @ map (GetCharacteristic \<circ> snd) (characteristic_uuids self)
               @ map (StartNotify \<circ> snd) (characteristic_uuids self)
               @ map (StopNotify \<circ> snd) (characteristic_uuids self) @ [Disconnect]
           \<and> \<not> client_connected self'"
proof -
  let ?regs = "characteristic_uuids self"
  define self1 where "self1 = self\<lparr>device := Some d\<rparr>"
  define self2 where
    "self2 = set_connected True
               (self1\<lparr>client := Some \<lparr>client_device = d, is_connected = False\<rparr>\<rparr>)"
  define w1 where
    "w1 = \<lparr>trace = trace w @ [ScannerStart, ScannerStop],
           stdout = stdout w @ Msg_scanning
                      # found_lines (target_name self) (advertisements env)
                      @ [Msg_device_found]\<rparr>"
  define w2 where
    "w2 = \<lparr>trace = trace w1 @ Connect # map (GetCharacteristic \<circ> snd) ?regs,
           stdout = stdout w1 @ [Msg_connected_to (address d), Msg_all_available]\<rparr>"
  define w3 where
    "w3 = \<lparr>trace = trace w2 @ map (StartNotify \<circ> snd) ?regs,
           stdout = stdout w2 @ map (Msg_notification_started \<circ> fst) ?regs\<rparr>"
  define w4 where "w4 = print_msg Msg_shutdown (print_msg Msg_listening w3)"
  have s: "scan_for_device env self w = (True, self1, w1)"
    unfolding self1_def w1_def using scan by (rule scan_found)
  have c: "connect env self1 w1 = (True, self2, w2)"
    using conn present
    by (simp add: connect_def validate_present issue_def print_msg_def self1_def self2_def w2_def)
  have cl: "client self2 \<noteq> None"
    by (simp add: self2_def set_connected_def)
  have rg: "characteristic_uuids self2 = ?regs"
    by (simp add: self2_def self1_def set_connected_def)
  have n: "start_notifications env self2 w2 = (Inr (), self2, w3)"
    unfolding start_notifications_def rg w3_def
    by (rule start_loop_ok [OF cl start])
  have l: "listen env 0 = Some n"
    using cancel by (simp add: listen_cancelled)
  have k: "client_connected self2"
    by (simp add: self2_def client_connected_def set_connected_def)
  have f: "find (stop_notify_fails env) (map snd ?regs) = None"
    using stop by (auto simp: find_None_iff)
  have t: "teardown env self2 w4 =
      (Inr (), set_connected False self2,
       \<lparr>trace = trace w4 @ map StopNotify (map snd ?regs) @ [Disconnect],
        stdout = stdout w4 @ map Msg_notification_stopped (map snd ?regs) @ [Msg_disconnected]\<rparr>)"
    using disc by (simp add: teardown_connected [OF k] rg f)
  have r: "run env self w = Some (teardown env self2 w4)"
    using link by (simp add: run_def s c n l w4_def)
  show ?thesis
    unfolding r t
    by (simp add: ops_since_def w4_def w3_def w2_def w1_def print_msg_def set_connected_False)
qed

section \<open>The measurement codec: claims\<close>

text \<open>
  C9. The twelve bytes that encode the little-endian float triple (1.0, 2.0, -1.0), given
  to \<^verbatim>\<open>AccelerationCharacteristic.read_from\<close>, yield a measurement whose fields are 1.0, 2.0
  and -1.0 in that order. The decoder is a function of the buffer alone: it reads and
  writes nothing else. Delivered to the handler under the name \<^verbatim>\<open>acceleration\<close>, the same
  buffer is decoded to the same measurement, which is printed.
\<close>

theorem acceleration_decodes_triple:
  "Acceleration_read_from
     [0x00, 0x00, 0x80, 0x3F, 0x00, 0x00, 0x00, 0x40, 0x00, 0x00, 0x80, 0xBF]
   = Inr (AccelerationCharacteristic (PyFloat (Finite 1)) (PyFloat (Finite 2))
            (PyFloat (Finite (- 1))))
   \<and> notification_handler ''acceleration'' sender
       [0x00, 0x00, 0x80, 0x3F, 0x00, 0x00, 0x00, 0x40, 0x00, 0x00, 0x80, 0xBF] w
     = (Inr (),
        print_msg
          (Msg_received ''acceleration'' sender
             (Some (AccelerationCharacteristic (PyFloat (Finite 1)) (PyFloat (Finite 2))
                      (PyFloat (Finite (- 1))))))
          w)"
  by (simp add: notification_handler_def match_measurement_def codec_defs float_of_bits_def)

text \<open>
  C5. On the timing-only profile the claim asks for a measurement whose \<^verbatim>\<open>time\<close> field is
  the unsigned 32-bit integer itself. The code stores the tuple that \<^verbatim>\<open>unpack\<close> returns:
  for the bytes \<^verbatim>\<open>01 00 00 00\<close> the field is \<^verbatim>\<open>(1,)\<close>, not \<^verbatim>\<open>1\<close>.
\<close>

theorem Time_read_from_stores_tuple:
  "Time_read_from [0x01, 0x00, 0x00, 0x00] = Inr (TimeCharacteristic (PyTuple [PyInt 1]))
   \<and> Time_read_from [0x01, 0x00, 0x00, 0x00] \<noteq> Inr (TimeCharacteristic (PyInt 1))"
  by (simp add: codec_defs)

text \<open>
  C4, as amended. For each of the five decoders, a buffer whose length is not the width of
  the format (12 bytes for the two float triples, 4 bytes for the signed integer, the
  float and the unsigned integer) makes \<^verbatim>\<open>read_from\<close> raise \<^verbatim>\<open>struct.error\<close>; nothing is
  decoded from a prefix of the buffer. The exception names the width that the format
  requires, and nothing else.
\<close>

theorem read_from_wrong_length:
  "(length data \<noteq> 12 \<longrightarrow> Acceleration_read_from data = Inl (StructError 12))
   \<and> (length data \<noteq> 12 \<longrightarrow> Rotation_read_from data = Inl (StructError 12))
   \<and> (length data \<noteq> 4 \<longrightarrow> Magnetometer_read_from data = Inl (StructError 4))
   \<and> (length data \<noteq> 4 \<longrightarrow> Temperature_read_from data = Inl (StructError 4))
   \<and> (length data \<noteq> 4 \<longrightarrow> Time_read_from data = Inl (StructError 4))"
  by (simp add: codec_defs)

theorem read_from_wrong_length_witness:
  "Acceleration_read_from [1, 2, 3, 4, 5] = Inl (StructError 12)
   \<and> Rotation_read_from [1, 2, 3, 4, 5] = Inl (StructError 12)
   \<and> Magnetometer_read_from [1, 2, 3, 4, 5] = Inl (StructError 4)
   \<and> Temperature_read_from [1, 2, 3, 4, 5] = Inl (StructError 4)
   \<and> Time_read_from [1, 2, 3, 4, 5] = Inl (StructError 4)"
  using read_from_wrong_length [of "[1, 2, 3, 4, 5]"] by simp

text \<open>
  The claim as written has the error carry the actual length as well. A buffer of 4 bytes
  and a buffer of 5 bytes raise the same exception.
\<close>

theorem length_mismatch_counterexample:
  "Acceleration_read_from [0, 0, 0, 0] = Inl (StructError 12)
   \<and> Acceleration_read_from [0, 0, 0, 0, 0] = Inl (StructError 12)"
  by (simp add: codec_defs)

section \<open>The notification handlers: claims\<close>

text \<open>
  C3, as amended. Neither handler catches anything. In the full profile, a buffer of the
  wrong length delivered under a registered name makes the handler raise \<^verbatim>\<open>struct.error\<close>
  and print nothing; a name that is not in the registry makes it print the line with the
  result \<^verbatim>\<open>None\<close> and return normally. In the timing-only profile, a buffer of the wrong
  length makes the handler raise \<^verbatim>\<open>struct.error\<close>, and a name that is not in the registry
  makes it raise \<^verbatim>\<open>Exception("Unreachable")\<close>.
\<close>

theorem notification_handler_raises:
  "(length data \<noteq> 12 \<longrightarrow>
      notification_handler ''acceleration'' sender data w = (Inl (StructError 12), w))
   \<and> (length data \<noteq> 12 \<longrightarrow>
      notification_handler ''rotation'' sender data w = (Inl (StructError 12), w))
   \<and> (length data \<noteq> 4 \<longrightarrow>
      notification_handler ''magnetometer'' sender data w = (Inl (StructError 4), w))
   \<and> (length data \<noteq> 4 \<longrightarrow>
      notification_handler ''temperature'' sender data w = (Inl (StructError 4), w))
   \<and> (unknown \<notin> set (map fst CHARACTERISTIC_UUIDS) \<longrightarrow>
      notification_handler unknown sender data w
        = (Inr (), print_msg (Msg_received unknown sender None) w))
   \<and> (length data \<noteq> 4 \<longrightarrow>
      fst (speed_notification_handler ''time'' sender data t_first t_now g)
        = Inl (StructError 4))
   \<and> (unknown \<notin> set (map fst SPEED_CHARACTERISTIC_UUIDS) \<longrightarrow>
      fst (speed_notification_handler unknown sender data t_first t_now g) = Inl Unreachable)"
  by (simp add: notification_handler_def match_measurement_def speed_notification_handler_def
      codec_defs CHARACTERISTIC_UUIDS_def SPEED_CHARACTERISTIC_UUIDS_def Let_def)

theorem notification_handler_raises_witness:
  "notification_handler ''acceleration'' 7 [1, 2, 3, 4, 5] world0 = (Inl (StructError 12), world0)
   \<and> notification_handler ''rotation'' 7 [1, 2, 3, 4, 5] world0 = (Inl (StructError 12), world0)
   \<and> notification_handler ''magnetometer'' 7 [1, 2, 3, 4, 5] world0 = (Inl (StructError 4), world0)
   \<and> notification_handler ''temperature'' 7 [1, 2, 3, 4, 5] world0 = (Inl (StructError 4), world0)
   \<and> notification_handler ''humidity'' 7 [1, 2, 3, 4, 5] world0
       = (Inr (), print_msg (Msg_received ''humidity'' 7 None) world0)
   \<and> fst (speed_notification_handler ''time'' 7 [1, 2, 3, 4, 5] 10 20 timing0)
       = Inl (StructError 4)
   \<and> fst (speed_notification_handler ''humidity'' 7 [1, 2, 3, 4, 5] 10 20 timing0)
       = Inl Unreachable"
  using notification_handler_raises
    [of "[1, 2, 3, 4, 5]" 7 world0 "''humidity''" 10 20 timing0]
  by (simp add: CHARACTERISTIC_UUIDS_def SPEED_CHARACTERISTIC_UUIDS_def)

text \<open>
  The claim as written has a decode failure handed to the sink as a value and an unknown
  name never raise. A 4-byte buffer delivered under \<^verbatim>\<open>acceleration\<close> leaves the handler
  as \<^verbatim>\<open>struct.error\<close> with nothing printed, and an unknown name leaves the timing-only
  handler as an exception.
\<close>

theorem notification_handler_counterexample:
  "notification_handler ''acceleration'' 7 [0, 0, 0, 0] world0 = (Inl (StructError 12), world0)
   \<and> fst (speed_notification_handler ''humidity'' 7 [0, 0, 0, 0] 10 20 timing0) = Inl Unreachable"
  by (simp add: notification_handler_def match_measurement_def speed_notification_handler_def
      codec_defs Let_def)

section \<open>The session: claims\<close>

text \<open>
  C10. \<^verbatim>\<open>connect()\<close> on a manager whose \<^verbatim>\<open>device\<close> is \<^verbatim>\<open>None\<close> returns \<^verbatim>\<open>False\<close> at once: it
  prints one line, issues no operation against the BLE stack, creates no client and leaves
  every field of the manager as it was, so a \<^verbatim>\<open>client\<close> that was \<^verbatim>\<open>None\<close> stays \<^verbatim>\<open>None\<close>.
\<close>

theorem connect_without_device:
  assumes "device self = None"
  shows "connect env self w = (False, self, w\<lparr>stdout := stdout w @ [Msg_no_device]\<rparr>)"
  using assms by (simp add: connect_def print_msg_def)

theorem connect_without_device_witness:
  "device manager0 = None \<and> client manager0 = None
   \<and> connect env_ok manager0 world0 = (False, manager0, \<lparr>trace = [], stdout = [Msg_no_device]\<rparr>)"
  using connect_without_device [of manager0 env_ok world0]
  by (simp add: manager0_def BLEManager_init_def world0_def)

text \<open>
  C7, as amended. When no advertisement whose name equals the target name arrives before
  the timeout, \<^verbatim>\<open>run\<close> starts and stops the scanner, prints that the device was not found
  and returns \<^verbatim>\<open>None\<close>, the value it returns on every path; it creates no client and
  makes no connect attempt.
\<close>

theorem discovery_timeout_returns:
  assumes "find (\<lambda>d. name d = Some (target_name self)) (advertisements env) = None"
  shows "run env self w =
     Some (Inr (), self,
           \<lparr>trace = trace w @ [ScannerStart, ScannerStop],
            stdout = stdout w @ [Msg_scanning, Msg_device_not_found]\<rparr>)"
  using assms by (simp add: run_def scan_for_device_def issue_def print_msg_def)

theorem discovery_timeout_returns_witness:
  "run env_timeout manager0 world0 =
     Some (Inr (), manager0,
           \<lparr>trace = [ScannerStart, ScannerStop],
            stdout = [Msg_scanning, Msg_device_not_found]\<rparr>)"
  using discovery_timeout_returns [of manager0 env_timeout world0]
  by (simp add: concrete_defs)

text \<open>
  The claim as written has the timeout surfaced to the caller as the result of \<^verbatim>\<open>run\<close>.
  The caller receives the same value after a timeout as after a session that subscribed,
  listened and shut down in order.
\<close>

theorem discovery_timeout_counterexample:
  "returned (run env_timeout manager0 world0) = Some (Inr ())
   \<and> returned (run env_ok manager0 world0) = Some (Inr ())"
proof -
  have "listen env_ok 0 = Some 0"
    by (rule listen_cancelled) (simp_all add: env_ok_def)
  then show ?thesis
    by (simp add: returned_def step_defs concrete_defs)
qed

text \<open>
  C6, as amended. When the peripheral is found and connected and its characteristic set
  lacks a required identifier, \<^verbatim>\<open>connect\<close> looks the entries up in registry order, stops at
  the first one that is missing, prints a line that names it and issues a disconnect;
  \<^verbatim>\<open>run\<close> then returns \<^verbatim>\<open>None\<close>, its ordinary value, without a single subscription
  attempt. The printed line is the only place where the missing entry is named. \<open>pre\<close>
  holds the entries before the first missing one.
\<close>

theorem validate_fail_fast:
  assumes scan: "find (\<lambda>d. name d = Some (target_name self)) (advertisements env) = Some d"
    and conn: "\<not> connect_fails env"
    and regs: "characteristic_uuids self = pre @ (label, uuid) # post"
    and present: "\<forall>(l, u)\<in>set pre. has_characteristic env u"
    and missing: "\<not> has_characteristic env uuid"
  shows "\<exists>self' w'. run env self w = Some (Inr (), self', w')
           \<and> ops_since w w' = [ScannerStart, ScannerStop, Connect]
               @ map (GetCharacteristic \<circ> snd) pre @ [GetCharacteristic uuid, Disconnect]
           \<and> Msg_characteristic_not_found label uuid \<in> set (printed_since w w')
           \<and> (\<forall>u. StartNotify u \<notin> set (ops_since w w'))"
proof -
  let ?self1 = "self\<lparr>device := Some d\<rparr>"
  let ?w1 = "\<lparr>trace = trace w @ [ScannerStart, ScannerStop],
             stdout = stdout w @ Msg_scanning
                        # found_lines (target_name self) (advertisements env)
                        @ [Msg_device_found]\<rparr>"
  let ?w2 = "\<lparr>trace = trace ?w1 @ Connect # map (GetCharacteristic \<circ> snd) pre
                       @ [GetCharacteristic uuid, Disconnect],
             stdout = stdout ?w1 @ Msg_connected_to (address d)
                       # Msg_characteristic_not_found label uuid
                       # (if disconnect_fails env
                          then [Msg_failed_to_connect (TransportError Disconnect)] else [])\<rparr>"
  have s: "scan_for_device env self w = (True, ?self1, ?w1)"
    using scan by (rule scan_found)
  have "\<exists>self2. connect env ?self1 ?w1 = (False, self2, ?w2)"
    using conn regs validate_missing [OF present missing]
    by (simp add: connect_def issue_def print_msg_def)
  then obtain self2 where c: "connect env ?self1 ?w1 = (False, self2, ?w2)" ..
  have r: "run env self w = Some (Inr (), self2, ?w2)"
    by (simp add: run_def s c)
  have o: "ops_since w ?w2 = [ScannerStart, ScannerStop, Connect]
               @ map (GetCharacteristic \<circ> snd) pre @ [GetCharacteristic uuid, Disconnect]"
    by (simp add: ops_since_def)
  have p: "Msg_characteristic_not_found label uuid \<in> set (printed_since w ?w2)"
    by (simp add: printed_since_def)
  have n: "\<forall>u. StartNotify u \<notin> set (ops_since w ?w2)"
    unfolding o by auto
  from r o p n show ?thesis by blast
qed

theorem validate_fail_fast_witness:
  "\<exists>self' w'. run env_missing manager0 world0 = Some (Inr (), self', w')
     \<and> ops_since world0 w' =
         [ScannerStart, ScannerStop, Connect,
          GetCharacteristic ''19B10001-E8F2-537E-4F6C-D104768A1214'',
          GetCharacteristic ''19B10002-E8F2-537E-4F6C-D104768A1215'',
          Disconnect]
     \<and> Msg_characteristic_not_found ''rotation'' ''19B10002-E8F2-537E-4F6C-D104768A1215''
         \<in> set (printed_since world0 w')"
  using validate_fail_fast
    [where self = manager0 and env = env_missing and d = arduino and w = world0
       and pre = "[(''acceleration'', ''19B10001-E8F2-537E-4F6C-D104768A1214'')]"
       and label = "''rotation''" and uuid = "''19B10002-E8F2-537E-4F6C-D104768A1215''"
       and post = "[(''magnetometer'', ''19B10002-E8F2-537E-4F6C-D104768A1216''),
                    (''temperature'', ''19B10003-E8F2-537E-4F6C-D104768A1217'')]"]
  by (simp add: concrete_defs) blast

text \<open>
  The claim as written has the missing characteristic signalled as a failure of the run.
  \<^verbatim>\<open>run\<close> hands its caller the same value when a characteristic is missing as after a
  session that subscribed, listened and shut down in order, and \<^verbatim>\<open>connect\<close> answers
  \<^verbatim>\<open>False\<close> alike for a missing characteristic, a connection that failed and a manager
  without a device.
\<close>

theorem missing_characteristic_counterexample:
  "returned (run env_missing manager0 world0) = Some (Inr ())
   \<and> returned (run env_ok manager0 world0) = Some (Inr ())
   \<and> fst (connect env_missing manager_found world0) = False
   \<and> fst (connect env_connect_fails manager_found world0) = False
   \<and> fst (connect env_ok manager0 world0) = False"
proof -
  have "listen env_ok 0 = Some 0"
    by (rule listen_cancelled) (simp_all add: env_ok_def)
  then show ?thesis
    by (simp add: returned_def step_defs concrete_defs)
qed

text \<open>
  C1, as amended. When the peripheral is found, connected and validated and
  \<^verbatim>\<open>start_notify\<close> raises on the k-th characteristic in registry order (\<open>pre\<close> holds the
  \<open>k - 1\<close> entries before it, on which it returned), the exception it raised leaves
  \<^verbatim>\<open>start_notifications\<close> and \<^verbatim>\<open>run\<close> as it is. \<^verbatim>\<open>run\<close> has then called \<^verbatim>\<open>start_notify\<close> on
  the first k entries and nothing after: it issues no \<^verbatim>\<open>stop_notify\<close> and no disconnect,
  so no recovery is attempted for the \<open>k - 1\<close> subscriptions that succeeded.
\<close>

theorem subscribe_failure_propagates:
  assumes scan: "find (\<lambda>d. name d = Some (target_name self)) (advertisements env) = Some d"
    and conn: "\<not> connect_fails env"
    and regs: "characteristic_uuids self = pre @ (label, uuid) # post"
    and present: "\<forall>(l, u)\<in>set (characteristic_uuids self). has_characteristic env u"
    and ok: "\<forall>(l, u)\<in>set pre. start_notify_raises env u = None"
    and bad: "start_notify_raises env uuid = Some e"
  shows "\<exists>self' w'. run env self w = Some (Inl e, self', w')
           \<and> ops_since w w' = [ScannerStart, ScannerStop, Connect]
               @ map (GetCharacteristic \<circ> snd) (characteristic_uuids self)
               @ map (StartNotify \<circ> snd) pre @ [StartNotify uuid]
           \<and> (\<forall>u. StopNotify u \<notin> set (ops_since w w'))
           \<and> Disconnect \<notin> set (ops_since w w')"
proof -
  let ?regs = "characteristic_uuids self"
  define self1 where "self1 = self\<lparr>device := Some d\<rparr>"
  define self2 where
    "self2 = set_connected True
               (self1\<lparr>client := Some \<lparr>client_device = d, is_connected = False\<rparr>\<rparr>)"
  define self3 where
    "self3 = (if start_notify_drops_link env uuid then set_connected False self2 else self2)"
  define w1 where
    "w1 = \<lparr>trace = trace w @ [ScannerStart, ScannerStop],
           stdout = stdout w @ Msg_scanning
                      # found_lines (target_name self) (advertisements env)
                      @ [Msg_device_found]\<rparr>"
  define w2 where
    "w2 = \<lparr>trace = trace w1 @ Connect # map (GetCharacteristic \<circ> snd) ?regs,
           stdout = stdout w1 @ [Msg_connected_to (address d), Msg_all_available]\<rparr>"
  define w3 where
    "w3 = \<lparr>trace = trace w2 @ map (StartNotify \<circ> snd) pre @ [StartNotify uuid],
           stdout = stdout w2 @ map (Msg_notification_started \<circ> fst) pre\<rparr>"
  have s: "scan_for_device env self w = (True, self1, w1)"
    unfolding self1_def w1_def using scan by (rule scan_found)
  have c: "connect env self1 w1 = (True, self2, w2)"
    using conn present
    by (simp add: connect_def validate_present issue_def print_msg_def self1_def self2_def w2_def)
  have cl: "client self2 \<noteq> None"
    by (simp add: self2_def set_connected_def)
  have rg: "characteristic_uuids self2 = pre @ (label, uuid) # post"
    using regs by (simp add: self2_def self1_def set_connected_def)
  have n: "start_notifications env self2 w2 = (Inl e, self3, w3)"
    unfolding start_notifications_def rg w3_def self3_def
    by (rule start_loop_fails [OF cl ok bad])
  have r: "run env self w = Some (Inl e, self3, w3)"
    by (simp add: run_def s c n)
  have o: "ops_since w w3 = [ScannerStart, ScannerStop, Connect]
               @ map (GetCharacteristic \<circ> snd) ?regs
               @ map (StartNotify \<circ> snd) pre @ [StartNotify uuid]"
    by (simp add: ops_since_def w1_def w2_def w3_def)
  have n1: "\<forall>u. StopNotify u \<notin> set (ops_since w w3)"
    unfolding o by auto
  have n2: "Disconnect \<notin> set (ops_since w w3)"
    unfolding o by auto
  from r o n1 n2 show ?thesis by blast
qed

theorem subscribe_failure_propagates_witness:
  "\<exists>self' w'. run env_subscribe_drops manager0 world0
       = Some (Inl (BleakError ''Not connected''), self', w')
     \<and> ops_since world0 w' =
         [ScannerStart, ScannerStop, Connect,
          GetCharacteristic ''19B10001-E8F2-537E-4F6C-D104768A1214'',
          GetCharacteristic ''19B10002-E8F2-537E-4F6C-D104768A1215'',
          GetCharacteristic ''19B10002-E8F2-537E-4F6C-D104768A1216'',
          GetCharacteristic ''19B10003-E8F2-537E-4F6C-D104768A1217'',
          StartNotify ''19B10001-E8F2-537E-4F6C-D104768A1214'',
          StartNotify ''19B10002-E8F2-537E-4F6C-D104768A1215'',
          StartNotify ''19B10002-E8F2-537E-4F6C-D104768A1216'']"
  using subscribe_failure_propagates
    [where self = manager0 and env = env_subscribe_drops and d = arduino and w = world0
       and pre = "[(''acceleration'', ''19B10001-E8F2-537E-4F6C-D104768A1214''),
                   (''rotation'', ''19B10002-E8F2-537E-4F6C-D104768A1215'')]"
       and label = "''magnetometer''" and uuid = "''19B10002-E8F2-537E-4F6C-D104768A1216''"
       and post = "[(''temperature'', ''19B10003-E8F2-537E-4F6C-D104768A1217'')]"
       and e = "BleakError ''Not connected''"]
  by (simp add: concrete_defs) blast

text \<open>
  The claim as written has the two subscriptions that succeeded unsubscribed and the device
  disconnected when the third fails. On a stack that raises there and keeps the link, the
  run issues neither a \<^verbatim>\<open>stop_notify\<close> nor a disconnect, and ends with the client connected.
\<close>

theorem subscribe_failure_counterexample:
  "outcome (run env_subscribe_fails manager0 world0) =
     Some (Inl (TransportError (StartNotify ''19B10002-E8F2-537E-4F6C-D104768A1216'')),
           [ScannerStart, ScannerStop, Connect,
            GetCharacteristic ''19B10001-E8F2-537E-4F6C-D104768A1214'',
            GetCharacteristic ''19B10002-E8F2-537E-4F6C-D104768A1215'',
            GetCharacteristic ''19B10002-E8F2-537E-4F6C-D104768A1216'',
            GetCharacteristic ''19B10003-E8F2-537E-4F6C-D104768A1217'',
            StartNotify ''19B10001-E8F2-537E-4F6C-D104768A1214'',
            StartNotify ''19B10002-E8F2-537E-4F6C-D104768A1215'',
            StartNotify ''19B10002-E8F2-537E-4F6C-D104768A1216''],
           True)"
  by (simp add: outcome_def step_defs concrete_defs)

text \<open>
  C2, as amended. Teardown on a connected client issues \<^verbatim>\<open>stop_notify\<close> for the registry's
  identifiers in order. When each of them returns, it issues the disconnect: when that
  returns too, teardown returns normally and leaves the client disconnected; when it
  raises, the exception goes to the caller. At the first \<^verbatim>\<open>stop_notify\<close> that raises,
  teardown ends: the identifiers after it are not unsubscribed, no disconnect is issued,
  the client stays connected and the exception goes to the caller.
\<close>

theorem teardown_on_connected_client:
  assumes "client_connected self"
  shows "teardown env self w =
     (let uuids = map snd (characteristic_uuids self);
          stopped = takeWhile (\<lambda>u. \<not> stop_notify_fails env u) uuids
      in case find (stop_notify_fails env) uuids of
           Some u \<Rightarrow>
             (Inl (TransportError (StopNotify u)), self,
              \<lparr>trace = trace w @ map StopNotify stopped @ [StopNotify u],
               stdout = stdout w @ map Msg_notification_stopped stopped\<rparr>)
         | None \<Rightarrow>
             if disconnect_fails env then
               (Inl (TransportError Disconnect), self,
                \<lparr>trace = trace w @ map StopNotify uuids @ [Disconnect],
                 stdout = stdout w @ map Msg_notification_stopped uuids\<rparr>)
             else
               (Inr (), set_connected False self,
                \<lparr>trace = trace w @ map StopNotify uuids @ [Disconnect],
                 stdout = stdout w @ map Msg_notification_stopped uuids @ [Msg_disconnected]\<rparr>))"
  using assms by (rule teardown_connected)

theorem teardown_on_connected_client_witness:
  "client_connected manager_connected
   \<and> fst (teardown env_ok manager_connected world0) = Inr ()
   \<and> trace (snd (snd (teardown env_ok manager_connected world0))) =
       [StopNotify ''19B10001-E8F2-537E-4F6C-D104768A1214'',
        StopNotify ''19B10002-E8F2-537E-4F6C-D104768A1215'',
        StopNotify ''19B10002-E8F2-537E-4F6C-D104768A1216'',
        StopNotify ''19B10003-E8F2-537E-4F6C-D104768A1217'', Disconnect]
   \<and> fst (teardown env_stop_fails manager_connected world0)
       = Inl (TransportError (StopNotify ''19B10002-E8F2-537E-4F6C-D104768A1215''))
   \<and> trace (snd (snd (teardown env_stop_fails manager_connected world0))) =
       [StopNotify ''19B10001-E8F2-537E-4F6C-D104768A1214'',
        StopNotify ''19B10002-E8F2-537E-4F6C-D104768A1215'']"
  using teardown_on_connected_client [of manager_connected env_ok world0]
    teardown_on_connected_client [of manager_connected env_stop_fails world0]
  by (simp add: concrete_defs client_connected_def)

text \<open>
  The claim as written has teardown go on after a failed unsubscribe, disconnect, and
  raise nothing. With a \<^verbatim>\<open>stop_notify\<close> that raises on the second identifier, \<^verbatim>\<open>run\<close>
  ends with that exception, the third and fourth identifiers still subscribed, no
  disconnect issued and the client connected.
\<close>

theorem teardown_error_counterexample:
  "outcome (run env_stop_fails manager0 world0) =
     Some (Inl (TransportError (StopNotify ''19B10002-E8F2-537E-4F6C-D104768A1215'')),
           [ScannerStart, ScannerStop, Connect,
            GetCharacteristic ''19B10001-E8F2-537E-4F6C-D104768A1214'',
            GetCharacteristic ''19B10002-E8F2-537E-4F6C-D104768A1215'',
            GetCharacteristic ''19B10002-E8F2-537E-4F6C-D104768A1216'',
            GetCharacteristic ''19B10003-E8F2-537E-4F6C-D104768A1217'',
            StartNotify ''19B10001-E8F2-537E-4F6C-D104768A1214'',
            StartNotify ''19B10002-E8F2-537E-4F6C-D104768A1215'',
            StartNotify ''19B10002-E8F2-537E-4F6C-D104768A1216'',
            StartNotify ''19B10003-E8F2-537E-4F6C-D104768A1217'',
            StopNotify ''19B10001-E8F2-537E-4F6C-D104768A1214'',
            StopNotify ''19B10002-E8F2-537E-4F6C-D104768A1215''],
           True)"
proof -
  have "listen env_stop_fails 0 = Some 0"
    by (rule listen_cancelled) (simp_all add: concrete_defs)
  then show ?thesis
    by (simp add: outcome_def step_defs concrete_defs)
qed

text \<open>
  C8, as amended. When one invocation of the teardown sequence returns normally, the next
  one issues no operation against the BLE stack, prints nothing and changes nothing: the
  guard \<^verbatim>\<open>self.client and self.client.is_connected\<close> is false after a disconnect that
  succeeded (and was false already if the first invocation found no connected client).
\<close>

theorem second_teardown_is_noop:
  assumes "teardown env self w = (Inr (), self1, w1)"
  shows "teardown env self1 w1 = (Inr (), self1, w1)"
proof (cases "client_connected self")
  case True
  from assms have "self1 = set_connected False self"
    unfolding teardown_connected [OF True] Let_def
    by (auto split: option.splits if_splits)
  then have "\<not> client_connected self1"
    by (simp add: set_connected_False)
  then show ?thesis
    by (rule teardown_idle)
next
  case False
  then have "teardown env self w = (Inr (), self, w)"
    by (rule teardown_idle)
  with assms have "self1 = self" "w1 = w" by simp_all
  with False show ?thesis
    by (simp add: teardown_idle)
qed

theorem second_teardown_is_noop_witness:
  "fst (teardown env_ok manager_connected world0) = Inr ()
   \<and> teardown_twice env_ok manager_connected world0 = teardown env_ok manager_connected world0"
  using second_teardown_is_noop
    [of env_ok manager_connected world0
        "fst (snd (teardown env_ok manager_connected world0))"
        "snd (snd (teardown env_ok manager_connected world0))"]
  by (simp add: teardown_twice_def step_defs concrete_defs)

text \<open>
  The claim as written has every second invocation issue nothing. When the first
  invocation ends with an exception the client is still connected, and the second one
  issues the operations again: after a \<^verbatim>\<open>stop_notify\<close> that raises on the second
  identifier, and after a disconnect that raises.
\<close>

theorem second_teardown_counterexample:
  "trace (snd (snd (teardown_twice env_stop_fails manager_connected world0))) =
     [StopNotify ''19B10001-E8F2-537E-4F6C-D104768A1214'',
      StopNotify ''19B10002-E8F2-537E-4F6C-D104768A1215'',
      StopNotify ''19B10001-E8F2-537E-4F6C-D104768A1214'',
      StopNotify ''19B10002-E8F2-537E-4F6C-D104768A1215'']
   \<and> trace (snd (snd (teardown_twice env_disconnect_fails manager_connected world0))) =
     [StopNotify ''19B10001-E8F2-537E-4F6C-D104768A1214'',
      StopNotify ''19B10002-E8F2-537E-4F6C-D104768A1215'',
      StopNotify ''19B10002-E8F2-537E-4F6C-D104768A1216'',
      StopNotify ''19B10003-E8F2-537E-4F6C-D104768A1217'', Disconnect,
      StopNotify ''19B10001-E8F2-537E-4F6C-D104768A1214'',
      StopNotify ''19B10002-E8F2-537E-4F6C-D104768A1215'',
      StopNotify ''19B10002-E8F2-537E-4F6C-D104768A1216'',
      StopNotify ''19B10003-E8F2-537E-4F6C-D104768A1217'', Disconnect]"
  by (simp add: teardown_twice_def step_defs concrete_defs)

end
